theory Spec2Isabelle
  imports Main "HOL-Library.List_Lexorder" "HOL-Library.Char_ord"
begin

section \<open>The document store: manifests, documents, bundles and journals\<close>

text \<open>
  A shallow embedding of \<^verbatim>\<open>documentstore/domain.py\<close>. Python strings are \<open>string\<close>,
  compared as Python compares them (lexicographically, a proper prefix being smaller);
  exceptions are values of \<open>error\<close>; \<open>utcnow\<close> is a clock handed to every function that
  reads the time.
\<close>

subsection \<open>Exceptions and the clock\<close>

datatype error =
    ValueError string
  | IndexError
  | KeyError
  | AttributeError
  | OverflowError
  | VersionAlreadySet
  | AlreadyExists
  | DoesNotExist
  | RetryableError
  | NonRetryableError

text \<open>
  The clock is the sequence of readings that successive calls of \<open>now()\<close> return;
  \<open>now\<close> gives the next reading and the clock that remains.
\<close>

type_synonym clock = "nat \<Rightarrow> string"

definition now :: "clock \<Rightarrow> string \<times> clock" where
  "now c = (c 0, \<lambda>n. c (Suc n))"

subsection \<open>Python built-ins used by the code\<close>

text \<open>\<open>xs[i]\<close>: a negative index counts from the end, an index out of range raises.\<close>

definition py_getitem :: "'a list \<Rightarrow> int \<Rightarrow> error + 'a" where
  "py_getitem xs i =
     (let j = (if i < 0 then i + int (length xs) else i)
      in if j < 0 \<or> int (length xs) \<le> j then Inl IndexError else Inr (xs ! nat j))"

text \<open>
  \<open>max(iterable, key=key)\<close>: the running maximum is replaced only by an item whose key is
  strictly greater; an empty iterable raises ValueError (here \<open>None\<close>).
\<close>

fun max_from :: "('a \<Rightarrow> 'k::linorder) \<Rightarrow> 'a \<Rightarrow> 'a list \<Rightarrow> 'a" where
  "max_from key m [] = m"
| "max_from key m (x # xs) = max_from key (if key m < key x then x else m) xs"

fun py_max :: "('a \<Rightarrow> 'k::linorder) \<Rightarrow> 'a list \<Rightarrow> 'a option" where
  "py_max key [] = None"
| "py_max key (x # xs) = Some (max_from key x xs)"

text \<open>
  A dict literal or comprehension inserts its keys in order: a key seen again keeps its
  place and takes the new value.
\<close>

fun dict_set :: "('k \<times> 'v) list \<Rightarrow> 'k \<Rightarrow> 'v \<Rightarrow> ('k \<times> 'v) list" where
  "dict_set [] k v = [(k, v)]"
| "dict_set (p # ps) k v = (if fst p = k then (k, v) # ps else p # dict_set ps k v)"

subsection \<open>DocumentManifest\<close>

text \<open>
  A version is \<^verbatim>\<open>{"data": uri, "assets": {asset_id: ...}, "timestamp": ts}\<close>. In the stored
  manifest every asset holds its timeline, a list of \<open>(timestamp, uri)\<close>; in what
  \<open>version\<close> and \<open>version_at\<close> return every asset holds one URI. The field \<open>timestamp\<close>
  is what \<^verbatim>\<open>version.get("timestamp", "")\<close> reads.
\<close>

type_synonym timeline = "(string \<times> string) list"

record 'a version =
  data :: string
  assets :: "string \<rightharpoonup> 'a"
  timestamp :: string

record manifest =
  doc_id :: string
  versions :: "timeline version list"

text \<open>
  The \<open>assets\<close> argument of \<open>add_version\<close> is a list of asset ids or a dict from asset id
  to URI (its items in insertion order).
\<close>

datatype assets_arg = AssetIds "string list" | AssetUris "(string \<times> string) list"

fun asset_keys :: "assets_arg \<Rightarrow> string list" where
  "asset_keys (AssetIds ids) = ids"
| "asset_keys (AssetUris items) = map fst items"

definition DocumentManifest_new :: "string \<Rightarrow> manifest" where
  "DocumentManifest_new i = \<lparr>doc_id = i, versions = []\<rparr>"

definition DocumentManifest_new_version ::
  "string \<Rightarrow> assets_arg \<Rightarrow> clock \<Rightarrow> timeline version \<times> clock" where
  "DocumentManifest_new_version data_uri as c =
     (let (t, c1) = now c
      in (\<lparr>data = data_uri, assets = map_of (map (\<lambda>aid. (aid, [])) (asset_keys as)),
           timestamp = t\<rparr>, c1))"

text \<open>
  \<open>_new_asset_version\<close>: the timeline is looked up (KeyError for an unknown asset id)
  before the time is read.
\<close>

definition DocumentManifest_new_asset_version ::
  "timeline version \<Rightarrow> string \<Rightarrow> string \<Rightarrow> clock \<Rightarrow> (error + timeline version) \<times> clock" where
  "DocumentManifest_new_asset_version v asset_id asset_uri c =
     (case assets v asset_id of
        None \<Rightarrow> (Inl KeyError, c)
      | Some uris \<Rightarrow>
          (let (t, c1) = now c
           in (Inr (v\<lparr>assets := (assets v)(asset_id \<mapsto> uris @ [(t, asset_uri)])\<rparr>), c1)))"

text \<open>
  The loop of \<open>add_version\<close> over a dict: every asset with a non-empty URI gets a first
  timeline entry. Over a list of ids the first \<^verbatim>\<open>assets[asset_id]\<close> raises TypeError and
  the loop breaks, so nothing is added.
\<close>

fun add_version_loop ::
  "(string \<times> string) list \<Rightarrow> timeline version \<Rightarrow> clock \<Rightarrow> (error + timeline version) \<times> clock" where
  "add_version_loop [] v c = (Inr v, c)"
| "add_version_loop ((asset_id, asset_uri) # rest) v c =
     (if asset_uri \<noteq> []
      then (case DocumentManifest_new_asset_version v asset_id asset_uri c of
              (Inl e, c1) \<Rightarrow> (Inl e, c1)
            | (Inr v1, c1) \<Rightarrow> add_version_loop rest v1 c1)
      else add_version_loop rest v c)"

definition DocumentManifest_add_version ::
  "manifest \<Rightarrow> string \<Rightarrow> assets_arg \<Rightarrow> clock \<Rightarrow> (error + manifest) \<times> clock" where
  "DocumentManifest_add_version m data_uri as c =
     (let (v0, c1) = DocumentManifest_new_version data_uri as c
      in case (case as of AssetIds ids \<Rightarrow> (Inr v0, c1)
                        | AssetUris items \<Rightarrow> add_version_loop items v0 c1) of
           (Inl e, c2) \<Rightarrow> (Inl e, c2)
         | (Inr v, c2) \<Rightarrow> (Inr (m\<lparr>versions := versions m @ [v]\<rparr>), c2))"

definition DocumentManifest_add_asset_version ::
  "manifest \<Rightarrow> string \<Rightarrow> string \<Rightarrow> clock \<Rightarrow> (error + manifest) \<times> clock" where
  "DocumentManifest_add_asset_version m asset_id asset_uri c =
     (case py_getitem (versions m) (- 1) of
        Inl e \<Rightarrow> (Inl e, c)
      | Inr v \<Rightarrow>
          (case DocumentManifest_new_asset_version v asset_id asset_uri c of
             (Inl e, c1) \<Rightarrow> (Inl e, c1)
           | (Inr v1, c1) \<Rightarrow>
               (Inr (m\<lparr>versions := (versions m)[length (versions m) - 1 := v1]\<rparr>), c1)))"

subsection \<open>Document\<close>

text \<open>
  A Document is its manifest. A method that assigns \<open>self.manifest\<close> returns the exception
  it raised (if any), the manifest the object holds afterwards, and the clock.
\<close>

definition latest :: "timeline \<Rightarrow> string" where
  "latest uris = (case uris of [] \<Rightarrow> [] | _ \<Rightarrow> snd (last uris))"

definition Document_version :: "manifest \<Rightarrow> int \<Rightarrow> error + string version" where
  "Document_version d index =
     (case py_getitem (versions d) index of
        Inl e \<Rightarrow> Inl (ValueError ''missing version for index'')
      | Inr v \<Rightarrow>
          Inr \<lparr>data = data v, assets = (\<lambda>a. map_option latest (assets v a)),
               timestamp = timestamp v\<rparr>)"

text \<open>
  \<open>_link_assets\<close>: every key of \<open>tolink\<close> with the URI the latest version resolves it to,
  or the empty string.
\<close>

definition Document_link_assets :: "manifest \<Rightarrow> string list \<Rightarrow> (string \<times> string) list" where
  "Document_link_assets d tolink =
     (let latest_assets = (case Document_version d (- 1) of
                             Inl e \<Rightarrow> Map.empty
                           | Inr lv \<Rightarrow> assets lv)
      in fold (\<lambda>asset_key acc.
                 dict_set acc asset_key
                   (case latest_assets asset_key of None \<Rightarrow> [] | Some u \<Rightarrow> u))
           tolink [])"

text \<open>
  The assets getter takes the URL and the timeout and returns the asset keys found in
  the XML, or raises.
\<close>

definition Document_new_version ::
  "manifest \<Rightarrow> string \<Rightarrow> (string \<Rightarrow> 't \<Rightarrow> error + string list) \<Rightarrow> 't \<Rightarrow> clock
     \<Rightarrow> error option \<times> manifest \<times> clock" where
  "Document_new_version d data_url assets_getter timeout c =
     (let latest_data = (case Document_version d (- 1) of
                           Inl e \<Rightarrow> []
                         | Inr lv \<Rightarrow> data lv)
      in if latest_data = data_url then (Some VersionAlreadySet, d, c)
         else (case assets_getter data_url timeout of
                 Inl e \<Rightarrow> (Some e, d, c)
               | Inr data_assets_keys \<Rightarrow>
                   (case DocumentManifest_add_version d data_url
                           (AssetUris (Document_link_assets d data_assets_keys)) c of
                      (Inl e, c1) \<Rightarrow> (Some e, d, c1)
                    | (Inr m, c1) \<Rightarrow> (None, m, c1))))"

definition Document_new_asset_version ::
  "manifest \<Rightarrow> string \<Rightarrow> string \<Rightarrow> clock \<Rightarrow> error option \<times> manifest \<times> clock" where
  "Document_new_asset_version d asset_id data_url c =
     (let latest_assets = (case Document_version d (- 1) of
                             Inl e \<Rightarrow> Map.empty
                           | Inr lv \<Rightarrow> assets lv)
      in if latest_assets asset_id = Some data_url then (Some VersionAlreadySet, d, c)
         else (case DocumentManifest_add_asset_version d asset_id data_url c of
                 (Inl KeyError, c1) \<Rightarrow>
                   (Some (ValueError ''cannot add version: unknown asset_id''), d, c1)
               | (Inl e, c1) \<Rightarrow> (Some e, d, c1)
               | (Inr m, c1) \<Rightarrow> (None, m, c1)))"

subsection \<open>Resolution by time\<close>

text \<open>
  The two patterns of \<open>version_at\<close>. \<open>re.match\<close> anchors at the start, and \<open>$\<close> matches at
  the end of the string or just before a newline that ends it. The timestamp pattern is
  \<^verbatim>\<open>^[0-9]{4}-[0-9]{2}-[0-9]{2}(T[0-9]{2}:[0-9]{2}(:[0-9]{2})?Z)?$\<close>, the date pattern
  \<^verbatim>\<open>^\d{4}-\d{2}-\d{2}$\<close>; the date pattern is tried only on a string that matched the
  timestamp pattern, whose digits are all ASCII digits.
\<close>

definition is_digit :: "char \<Rightarrow> bool" where
  "is_digit ch = (ch \<in> set ''0123456789'')"

datatype tok = Digit | Lit char

fun match_seq :: "tok list \<Rightarrow> string \<Rightarrow> bool" where
  "match_seq [] s = (s = [])"
| "match_seq (t # ts) [] = False"
| "match_seq (Digit # ts) (ch # s) = (is_digit ch \<and> match_seq ts s)"
| "match_seq (Lit x # ts) (ch # s) = (ch = x \<and> match_seq ts s)"

definition date_toks :: "tok list" where
  "date_toks = [Digit, Digit, Digit, Digit, Lit CHR ''-'', Digit, Digit, Lit CHR ''-'',
                Digit, Digit]"

definition minutes_toks :: "tok list" where
  "minutes_toks = [Lit CHR ''T'', Digit, Digit, Lit CHR '':'', Digit, Digit]"

definition seconds_toks :: "tok list" where
  "seconds_toks = [Lit CHR '':'', Digit, Digit]"

definition to_dollar :: "(string \<Rightarrow> bool) \<Rightarrow> string \<Rightarrow> bool" where
  "to_dollar p s = (p s \<or> (s \<noteq> [] \<and> last s = CHR 0x0A \<and> p (butlast s)))"

definition matches_timestamp_pattern :: "string \<Rightarrow> bool" where
  "matches_timestamp_pattern s =
     to_dollar (\<lambda>x. match_seq date_toks x
                   \<or> match_seq (date_toks @ minutes_toks @ [Lit CHR ''Z'']) x
                   \<or> match_seq (date_toks @ minutes_toks @ seconds_toks @ [Lit CHR ''Z'']) x) s"

definition matches_date_pattern :: "string \<Rightarrow> bool" where
  "matches_date_pattern s = to_dollar (match_seq date_toks) s"

text \<open>
  \<open>_at_time\<close>: the maximum, by timestamp, of the leading entries that are not later than
  the query; the empty string when there is none.
\<close>

definition at_time :: "timeline \<Rightarrow> string \<Rightarrow> string" where
  "at_time uris ts =
     (case py_max fst (takeWhile (\<lambda>asset. fst asset \<le> ts) uris) of
        None \<Rightarrow> []
      | Some target \<Rightarrow> snd target)"

definition Document_version_at :: "manifest \<Rightarrow> string \<Rightarrow> error + string version" where
  "Document_version_at d ts0 =
     (if \<not> matches_timestamp_pattern ts0 then Inl (ValueError ''invalid format for timestamp'')
      else
        (let ts = (if matches_date_pattern ts0 then ts0 @ ''T23:59:59.999999Z'' else ts0)
         in case py_max timestamp (takeWhile (\<lambda>v. timestamp v \<le> ts) (versions d)) of
              None \<Rightarrow> Inl (ValueError ''missing version for timestamp'')
            | Some target_version \<Rightarrow>
                Inr \<lparr>data = data target_version,
                     assets = (\<lambda>a. map_option (\<lambda>uris. at_time uris ts) (assets target_version a)),
                     timestamp = timestamp target_version\<rparr>))"

subsection \<open>BundleManifest\<close>

text \<open>
  A bundle manifest is a dict. The values it holds are strings (\<open>id\<close>, \<open>created\<close>,
  \<open>updated\<close>, components), the list of items, and the metadata dict, whose values are
  lists of \<open>(timestamp, value)\<close>.
\<close>

datatype mvalue = MStr string | MTuple "string list" | MDict "(string \<times> string) list"

datatype bval =
    Text string
  | Items "string list"
  | Metadata "string \<rightharpoonup> (string \<times> mvalue) list"

type_synonym bundle_manifest = "string \<rightharpoonup> bval"

text \<open>\<open>item in x\<close> for a string item: membership in a list, substring of a string, key of a dict.\<close>

fun substring :: "string \<Rightarrow> string \<Rightarrow> bool" where
  "substring xs [] = (xs = [])"
| "substring xs (y # ys) = (take (length xs) (y # ys) = xs \<or> substring xs ys)"

fun py_in :: "string \<Rightarrow> bval \<Rightarrow> bool" where
  "py_in item (Items xs) = (item \<in> set xs)"
| "py_in item (Text s) = substring item s"
| "py_in item (Metadata md) = (md item \<noteq> None)"

text \<open>
  \<open>list.insert(index, x)\<close>: the index is converted to a machine integer (\<open>Py_ssize_t\<close>, 64
  bits here), which raises OverflowError when it does not fit; a negative index counts
  from the end; what is still out of range is moved to the nearest end.
\<close>

definition py_list_insert :: "'a list \<Rightarrow> int \<Rightarrow> 'a \<Rightarrow> error + 'a list" where
  "py_list_insert xs index x =
     (if index < - (2 ^ 63) \<or> 2 ^ 63 \<le> index then Inl OverflowError
      else
        (let n = int (length xs);
             w = (if index < 0 then (if index + n < 0 then 0 else index + n) else index);
             j = (if n < w then n else w)
         in Inr (take (nat j) xs @ x # drop (nat j) xs)))"

definition BundleManifest_new :: "string \<Rightarrow> clock \<Rightarrow> bundle_manifest \<times> clock" where
  "BundleManifest_new bundle_id c =
     (let (t, c1) = now c
      in ([''id'' \<mapsto> Text bundle_id, ''created'' \<mapsto> Text t, ''updated'' \<mapsto> Text t,
           ''items'' \<mapsto> Items [], ''metadata'' \<mapsto> Metadata Map.empty], c1))"

definition BundleManifest_set_metadata ::
  "bundle_manifest \<Rightarrow> string \<Rightarrow> mvalue \<Rightarrow> clock \<Rightarrow> (error + bundle_manifest) \<times> clock" where
  "BundleManifest_set_metadata b name val c =
     (let (t, c1) = now c
      in case b ''metadata'' of
           None \<Rightarrow> (Inl KeyError, c1)
         | Some (Metadata md) \<Rightarrow>
             (let entries = (case md name of None \<Rightarrow> [] | Some es \<Rightarrow> es)
              in (Inr (b(''metadata'' \<mapsto> Metadata (md(name \<mapsto> entries @ [(t, val)])),
                        ''updated'' \<mapsto> Text t)), c1))
         | Some other \<Rightarrow> (Inl AttributeError, c1))"

definition BundleManifest_add_item ::
  "bundle_manifest \<Rightarrow> string \<Rightarrow> clock \<Rightarrow> (error + bundle_manifest) \<times> clock" where
  "BundleManifest_add_item b item c =
     (case b ''items'' of
        None \<Rightarrow> (Inl KeyError, c)
      | Some held \<Rightarrow>
          if py_in item held then (Inl AlreadyExists, c)
          else (case held of
                  Items xs \<Rightarrow>
                    (let (t, c1) = now c
                     in (Inr (b(''items'' \<mapsto> Items (xs @ [item]), ''updated'' \<mapsto> Text t)), c1))
                | other \<Rightarrow> (Inl AttributeError, c)))"

definition BundleManifest_insert_item ::
  "bundle_manifest \<Rightarrow> int \<Rightarrow> string \<Rightarrow> clock \<Rightarrow> (error + bundle_manifest) \<times> clock" where
  "BundleManifest_insert_item b index item c =
     (case b ''items'' of
        None \<Rightarrow> (Inl KeyError, c)
      | Some held \<Rightarrow>
          if py_in item held then (Inl AlreadyExists, c)
          else (case held of
                  Items xs \<Rightarrow>
                    (case py_list_insert xs index item of
                       Inl e \<Rightarrow> (Inl e, c)
                     | Inr ys \<Rightarrow>
                         (let (t, c1) = now c
                          in (Inr (b(''items'' \<mapsto> Items ys, ''updated'' \<mapsto> Text t)), c1)))
                | other \<Rightarrow> (Inl AttributeError, c)))"

definition BundleManifest_remove_item ::
  "bundle_manifest \<Rightarrow> string \<Rightarrow> clock \<Rightarrow> (error + bundle_manifest) \<times> clock" where
  "BundleManifest_remove_item b item c =
     (case b ''items'' of
        None \<Rightarrow> (Inl KeyError, c)
      | Some held \<Rightarrow>
          if \<not> py_in item held then (Inl DoesNotExist, c)
          else (case held of
                  Items xs \<Rightarrow>
                    (let (t, c1) = now c
                     in (Inr (b(''items'' \<mapsto> Items (remove1 item xs), ''updated'' \<mapsto> Text t)), c1))
                | other \<Rightarrow> (Inl AttributeError, c)))"

definition BundleManifest_set_component ::
  "bundle_manifest \<Rightarrow> string \<Rightarrow> bval \<Rightarrow> clock \<Rightarrow> (error + bundle_manifest) \<times> clock" where
  "BundleManifest_set_component b name val c =
     (let (t, c1) = now c
      in (Inr ((b(name \<mapsto> val))(''updated'' \<mapsto> Text t)), c1))"

definition BundleManifest_remove_component :: "bundle_manifest \<Rightarrow> string \<Rightarrow> error + bundle_manifest" where
  "BundleManifest_remove_component b name =
     (case b name of
        None \<Rightarrow> Inl DoesNotExist
      | Some held \<Rightarrow> Inr (b(name := None)))"

subsection \<open>DocumentsBundle and Journal\<close>

text \<open>
  Both hold a bundle manifest; a method that assigns \<open>self.manifest\<close> returns the
  exception raised (if any), the manifest held afterwards, and the clock.
\<close>

definition assign_manifest ::
  "bundle_manifest \<Rightarrow> (error + bundle_manifest) \<times> clock \<Rightarrow> error option \<times> bundle_manifest \<times> clock" where
  "assign_manifest held r =
     (case r of (Inl e, c1) \<Rightarrow> (Some e, held, c1) | (Inr b, c1) \<Rightarrow> (None, b, c1))"

definition DocumentsBundle_insert_document ::
  "bundle_manifest \<Rightarrow> int \<Rightarrow> string \<Rightarrow> clock \<Rightarrow> error option \<times> bundle_manifest \<times> clock" where
  "DocumentsBundle_insert_document self index document c =
     assign_manifest self (BundleManifest_insert_item self index document c)"

definition Journal_insert_issue ::
  "bundle_manifest \<Rightarrow> int \<Rightarrow> string \<Rightarrow> clock \<Rightarrow> error option \<times> bundle_manifest \<times> clock" where
  "Journal_insert_issue self index issue c =
     assign_manifest self (BundleManifest_insert_item self index issue c)"

definition SUBJECT_AREAS :: "string list" where
  "SUBJECT_AREAS =
     [''AGRICULTURAL SCIENCES'',
      ''APPLIED SOCIAL SCIENCES'',
      ''BIOLOGICAL SCIENCES'',
      ''ENGINEERING'',
      ''EXACT AND EARTH SCIENCES'',
      ''HEALTH SCIENCES'',
      ''HUMAN SCIENCES'',
      ''LINGUISTIC, LITERATURE AND ARTS'']"

text \<open>The setter of \<open>Journal.subject_areas\<close>, given the tuple of strings.\<close>

definition Journal_set_subject_areas ::
  "bundle_manifest \<Rightarrow> string list \<Rightarrow> clock \<Rightarrow> error option \<times> bundle_manifest \<times> clock" where
  "Journal_set_subject_areas self val c =
     (let invalid = filter (\<lambda>item. item \<notin> set SUBJECT_AREAS) val
      in if invalid \<noteq> [] then (Some (ValueError ''cannot set subject_areas''), self, c)
         else assign_manifest self
                (BundleManifest_set_metadata self ''subject_areas'' (MTuple val) c))"

subsection \<open>What append-only means\<close>

text \<open>
  A version is preserved in another when its data URI, its timestamp and its asset ids
  are the same and every asset timeline of the first is an initial segment of the
  timeline the second holds for that asset. A manifest is preserved in another when
  the id is the same and every version of the first is preserved, at the same position,
  in the second.
\<close>

definition extends :: "timeline version \<Rightarrow> timeline version \<Rightarrow> bool" where
  "extends v v' \<longleftrightarrow>
     data v' = data v \<and> timestamp v' = timestamp v \<and> dom (assets v') = dom (assets v) \<and>
     (\<forall>a uris. assets v a = Some uris \<longrightarrow> (\<exists>more. assets v' a = Some (uris @ more)))"

definition append_only :: "manifest \<Rightarrow> manifest \<Rightarrow> bool" where
  "append_only m m' \<longleftrightarrow>
     doc_id m' = doc_id m \<and> length (versions m) \<le> length (versions m') \<and>
     (\<forall>i<length (versions m). extends (versions m ! i) (versions m' ! i))"

text \<open>Documents used as concrete inputs.\<close>

definition doc_empty :: manifest where
  "doc_empty = DocumentManifest_new ''doc-1''"

definition doc_fig :: manifest where
  "doc_fig =
     \<lparr>doc_id = ''doc-1'',
      versions =
        [\<lparr>data = ''http://x/v1.xml'',
          assets = [''fig1'' \<mapsto> [(''2020-05-01T10:00:01.000000Z'', ''http://x/fig1.png'')]],
          timestamp = ''2020-05-01T10:00:00.000000Z''\<rparr>]\<rparr>"

definition clock_2021 :: clock where
  "clock_2021 n = (if n = 0 then ''2021-01-01T00:00:00.000000Z''
                   else ''2021-01-01T00:00:01.000000Z'')"

definition uris_tie :: timeline where
  "uris_tie =
     [(''2020-05-01T10:00:00.000000Z'', ''http://x/a.png''),
      (''2020-05-01T10:00:00.000000Z'', ''http://x/b.png'')]"

definition uris_unordered :: timeline where
  "uris_unordered =
     [(''2020-05-03T10:00:00.000000Z'', ''http://x/late.png''),
      (''2020-05-01T10:00:00.000000Z'', ''http://x/early.png'')]"

definition doc_tie :: manifest where
  "doc_tie =
     \<lparr>doc_id = ''doc-2'',
      versions =
        [\<lparr>data = ''http://x/v1.xml'', assets = [''fig1'' \<mapsto> uris_tie],
          timestamp = ''2020-05-01T10:00:00.000000Z''\<rparr>,
         \<lparr>data = ''http://x/v2.xml'', assets = [''fig1'' \<mapsto> []],
          timestamp = ''2020-05-01T10:00:00.000000Z''\<rparr>]\<rparr>"

definition uris_two :: timeline where
  "uris_two =
     [(''2020-05-01T10:00:01.000000Z'', ''http://x/a.png''),
      (''2020-05-02T10:00:00.000000Z'', ''http://x/b.png'')]"

definition doc_two :: manifest where
  "doc_two =
     \<lparr>doc_id = ''doc-3'',
      versions =
        [\<lparr>data = ''http://x/v1.xml'', assets = [''fig1'' \<mapsto> uris_two],
          timestamp = ''2020-05-01T10:00:00.000000Z''\<rparr>,
         \<lparr>data = ''http://x/v2.xml'',
          assets = [''fig1'' \<mapsto> [(''2020-05-03T10:00:00.500000Z'', ''http://x/b.png'')]],
          timestamp = ''2020-05-03T10:00:00.000000Z''\<rparr>]\<rparr>"

definition doc_fig_b :: manifest where
  "doc_fig_b =
     \<lparr>doc_id = ''doc-1'',
      versions =
        [\<lparr>data = ''http://x/v1.xml'',
          assets = [''fig1'' \<mapsto> [(''2020-05-01T10:00:01.000000Z'', ''http://x/fig1.png''),
                                  (''2021-01-01T00:00:00.000000Z'', ''http://x/fig1b.png'')]],
          timestamp = ''2020-05-01T10:00:00.000000Z''\<rparr>]\<rparr>"

definition getter_fig :: "string \<Rightarrow> nat \<Rightarrow> error + string list" where
  "getter_fig url timeout = Inr [''fig1'']"

text \<open>A journal used as concrete input.\<close>

definition journal_1 :: bundle_manifest where
  "journal_1 =
     [''id'' \<mapsto> Text ''journal-1'',
      ''created'' \<mapsto> Text ''2019-01-01T00:00:00.000000Z'',
      ''updated'' \<mapsto> Text ''2019-01-01T00:00:00.000000Z'',
      ''items'' \<mapsto> Items [''issue-1'', ''issue-2''],
      ''metadata'' \<mapsto> Metadata Map.empty,
      ''aop'' \<mapsto> Text ''aop-1'']"

section \<open>Properties\<close>

subsection \<open>Reading the latest version\<close>

lemma py_getitem_last:
  "py_getitem xs (- 1) = (if xs = [] then Inl IndexError else Inr (last xs))"
proof (cases xs rule: rev_cases)
  case Nil
  then show ?thesis by (simp add: py_getitem_def)
next
  case (snoc ys y)
  then show ?thesis by (simp add: py_getitem_def Let_def nat_add_distrib)
qed

lemma Document_version_latest:
  "Document_version d (- 1) =
     (if versions d = [] then Inl (ValueError ''missing version for index'')
      else Inr \<lparr>data = data (last (versions d)),
                assets = (\<lambda>a. map_option latest (assets (last (versions d)) a)),
                timestamp = timestamp (last (versions d))\<rparr>)"
  by (simp add: Document_version_def py_getitem_last)

text \<open>
  C9. On a Document with no version, \<open>new_asset_version\<close> raises IndexError, whatever the
  asset id and the URL: the guard against the latest binding passes and the access to
  \<open>versions[-1]\<close> fails outside the KeyError handler. The manifest is not replaced.
\<close>

theorem new_asset_version_no_versions:
  "versions d = [] \<Longrightarrow>
     Document_new_asset_version d asset_id data_url c = (Some IndexError, d, c)"
  by (simp add: Document_new_asset_version_def Document_version_latest
      DocumentManifest_add_asset_version_def py_getitem_last)

theorem new_asset_version_no_versions_witness:
  "versions doc_empty = [] \<and>
   Document_new_asset_version doc_empty ''fig1'' ''http://x/fig1.png'' clock_2021
     = (Some IndexError, doc_empty, clock_2021) \<and>
   IndexError \<noteq> VersionAlreadySet \<and>
   IndexError \<noteq> ValueError ''cannot add version: unknown asset_id''"
  using new_asset_version_no_versions [of doc_empty "''fig1''" "''http://x/fig1.png'' " clock_2021]
  by (simp add: doc_empty_def DocumentManifest_new_def)

text \<open>
  C8. On a Document with at least one version, \<open>new_asset_version\<close> for an asset id that
  is not a key of the latest version's assets raises ValueError (unknown asset id) and
  leaves the manifest as it was.
\<close>

theorem new_asset_version_unknown_asset:
  "versions d \<noteq> [] \<Longrightarrow> assets (last (versions d)) asset_id = None \<Longrightarrow>
     Document_new_asset_version d asset_id data_url c
       = (Some (ValueError ''cannot add version: unknown asset_id''), d, c)"
  by (simp add: Document_new_asset_version_def Document_version_latest
      DocumentManifest_add_asset_version_def py_getitem_last
      DocumentManifest_new_asset_version_def)

theorem new_asset_version_unknown_asset_witness:
  "versions doc_fig \<noteq> [] \<and> assets (last (versions doc_fig)) ''fig2'' = None \<and>
   Document_new_asset_version doc_fig ''fig2'' ''http://x/fig2.png'' clock_2021
     = (Some (ValueError ''cannot add version: unknown asset_id''), doc_fig, clock_2021)"
  using new_asset_version_unknown_asset
          [of doc_fig "''fig2''" "''http://x/fig2.png''" clock_2021]
  by (simp add: doc_fig_def)

text \<open>
  C5. When the latest version of a Document has data URI \<open>u\<close>, \<open>new_version\<close> with
  \<open>data_url = u\<close> raises VersionAlreadySet before the assets getter is called, and the
  Document keeps its manifest: the same versions, so the same number of them.
\<close>

theorem new_version_same_data_url:
  "Document_version d (- 1) = Inr lv \<Longrightarrow> data lv = u \<Longrightarrow>
     Document_new_version d u assets_getter timeout c = (Some VersionAlreadySet, d, c) \<and>
     length (versions (fst (snd (Document_new_version d u assets_getter timeout c))))
       = length (versions d)"
  by (simp add: Document_new_version_def)

theorem new_version_same_data_url_witness:
  "Document_version doc_fig (- 1)
     = Inr \<lparr>data = ''http://x/v1.xml'', assets = [''fig1'' \<mapsto> ''http://x/fig1.png''],
            timestamp = ''2020-05-01T10:00:00.000000Z''\<rparr> \<and>
   Document_new_version doc_fig ''http://x/v1.xml'' (\<lambda>url (t::nat). Inr [''fig1'']) 2 clock_2021
     = (Some VersionAlreadySet, doc_fig, clock_2021)"
proof -
  have lv: "Document_version doc_fig (- 1)
     = Inr \<lparr>data = ''http://x/v1.xml'', assets = [''fig1'' \<mapsto> ''http://x/fig1.png''],
            timestamp = ''2020-05-01T10:00:00.000000Z''\<rparr>"
    by (simp add: Document_version_latest doc_fig_def latest_def fun_eq_iff)
  from new_version_same_data_url [OF lv, of "''http://x/v1.xml''" "\<lambda>url (t::nat). Inr [''fig1'']" 2 clock_2021]
  show ?thesis using lv by simp
qed

subsection \<open>The timestamp patterns\<close>

lemmas pattern_defs = matches_timestamp_pattern_def matches_date_pattern_def to_dollar_def
  date_toks_def minutes_toks_def seconds_toks_def is_digit_def

lemma match_seq_length: "match_seq ts s \<Longrightarrow> length s = length ts"
  by (induction ts s rule: match_seq.induct) auto

text \<open>
  No string that ends in \<open>T23:59:59.999999Z\<close> matches the timestamp pattern: the pattern
  has no place for a fraction of a second.
\<close>

lemma widened_never_matches:
  "\<not> matches_timestamp_pattern (s @ ''T23:59:59.999999Z'')"
proof -
  let ?w = "''T23:59:59.999999Z''"
  have a: "\<not> match_seq date_toks (s @ ?w)"
    using match_seq_length [of date_toks "s @ ?w"] by (auto simp: date_toks_def)
  have b: "\<not> match_seq (date_toks @ minutes_toks @ [Lit CHR ''Z'']) (s @ ?w)"
  proof
    assume m: "match_seq (date_toks @ minutes_toks @ [Lit CHR ''Z'']) (s @ ?w)"
    from match_seq_length [OF m] have "s = []" by (simp add: date_toks_def minutes_toks_def)
    with m show False by (simp add: pattern_defs)
  qed
  have c: "\<not> match_seq (date_toks @ minutes_toks @ seconds_toks @ [Lit CHR ''Z'']) (s @ ?w)"
  proof
    assume m: "match_seq (date_toks @ minutes_toks @ seconds_toks @ [Lit CHR ''Z'']) (s @ ?w)"
    from match_seq_length [OF m] have "length s = 3"
      by (simp add: date_toks_def minutes_toks_def seconds_toks_def)
    then obtain x y z where "s = [x, y, z]"
      by (auto simp: length_Suc_conv numeral_3_eq_3)
    with m show False by (simp add: pattern_defs)
  qed
  show ?thesis
    using a b c by (simp add: matches_timestamp_pattern_def to_dollar_def)
qed

lemma version_at_widened_form_rejected:
  "Document_version_at d (s @ ''T23:59:59.999999Z'')
     = Inl (ValueError ''invalid format for timestamp'')"
  using widened_never_matches [of s] by (simp add: Document_version_at_def)

text \<open>
  C1. \<open>version_at\<close> with a bare date is to return what \<open>version_at\<close> returns with the
  date followed by \<open>T23:59:59.999999Z\<close>. On the Document \<open>doc_fig\<close> it does not: the
  bare date \<open>2020-05-01\<close> resolves the version and its asset as of the end of that day,
  and \<open>2020-05-01T23:59:59.999999Z\<close> is refused as malformed.
\<close>

theorem version_at_date_widening_diverges:
  "Document_version_at doc_fig ''2020-05-01''
     = Inr \<lparr>data = ''http://x/v1.xml'', assets = [''fig1'' \<mapsto> ''http://x/fig1.png''],
            timestamp = ''2020-05-01T10:00:00.000000Z''\<rparr> \<and>
   Document_version_at doc_fig ''2020-05-01T23:59:59.999999Z''
     = Inl (ValueError ''invalid format for timestamp'')"
  by (simp add: Document_version_at_def pattern_defs doc_fig_def at_time_def fun_eq_iff)

subsection \<open>Resolution by time\<close>

lemma sorted_takeWhile_filter:
  "sorted (map key xs) \<Longrightarrow> takeWhile (\<lambda>x. key x \<le> T) xs = filter (\<lambda>x. key x \<le> T) xs"
proof (induction xs)
  case Nil
  show ?case by simp
next
  case (Cons x xs)
  show ?case
  proof (cases "key x \<le> T")
    case True
    with Cons show ?thesis by simp
  next
    case False
    with Cons.prems have "\<forall>y\<in>set xs. \<not> key y \<le> T" by auto
    then have "filter (\<lambda>x. key x \<le> T) xs = []" by (simp add: filter_empty_conv)
    with False show ?thesis by simp
  qed
qed

lemma max_from_strictly_increasing:
  "sorted_wrt (<) (map key (m # xs)) \<Longrightarrow> max_from key m xs = last (m # xs)"
proof (induction xs arbitrary: m)
  case Nil
  show ?case by simp
next
  case (Cons x xs)
  from Cons.prems have lt: "key m < key x" and rest: "sorted_wrt (<) (map key (x # xs))"
    by simp_all
  from Cons.IH [OF rest] lt show ?case by simp
qed

lemma py_max_takeWhile_strictly_increasing:
  assumes "sorted_wrt (<) (map key xs)"
  shows "py_max key (takeWhile (\<lambda>x. key x \<le> T) xs)
           = (case filter (\<lambda>x. key x \<le> T) xs of [] \<Rightarrow> None | q # qs \<Rightarrow> Some (last (q # qs)))"
proof -
  from assms have "sorted (map key xs)" by (rule strict_sorted_imp_sorted)
  then have tw: "takeWhile (\<lambda>x. key x \<le> T) xs = filter (\<lambda>x. key x \<le> T) xs"
    by (rule sorted_takeWhile_filter)
  from assms have "sorted_wrt (\<lambda>x y. key x < key y) xs" by (simp add: sorted_wrt_map)
  then have "sorted_wrt (\<lambda>x y. key x < key y) (filter (\<lambda>x. key x \<le> T) xs)"
    by (rule sorted_wrt_filter)
  then have inc: "sorted_wrt (<) (map key (filter (\<lambda>x. key x \<le> T) xs))"
    by (simp add: sorted_wrt_map)
  show ?thesis
  proof (cases "filter (\<lambda>x. key x \<le> T) xs")
    case Nil
    with tw show ?thesis by simp
  next
    case (Cons q qs)
    with inc have "max_from key q qs = last (q # qs)"
      by (simp only: max_from_strictly_increasing)
    with Cons tw show ?thesis by simp
  qed
qed

text \<open>
  C2 as stated fails: resolution by time is to return the last entry whose timestamp is
  at most \<open>T\<close>, the later one of several that share the greatest such timestamp. In
  \<open>uris_tie\<close> both entries carry the same timestamp, not later than the query, and
  \<open>_at_time\<close> answers with the earlier one; in \<open>doc_tie\<close> both versions carry the same
  timestamp and \<open>version_at\<close> answers with the first version. In \<open>uris_unordered\<close>,
  whose timestamps do not increase along the list, the second entry is not later than the
  query and \<open>_at_time\<close> answers with the empty string, because it stops at the first
  entry that is later.
\<close>

theorem resolve_by_time_counterexample:
  "at_time uris_tie ''2020-05-02T00:00:00.000000Z'' = ''http://x/a.png'' \<and>
   fst (uris_tie ! 0) = fst (uris_tie ! 1) \<and>
   fst (uris_tie ! 1) \<le> ''2020-05-02T00:00:00.000000Z'' \<and>
   snd (uris_tie ! 0) = ''http://x/a.png'' \<and>
   snd (uris_tie ! 1) = ''http://x/b.png'' \<and>
   length uris_tie = 2 \<and>
   \<not> isl (Document_version_at doc_tie ''2020-05-02T00:00:00Z'') \<and>
   data (projr (Document_version_at doc_tie ''2020-05-02T00:00:00Z'')) = ''http://x/v1.xml'' \<and>
   data (versions doc_tie ! 1) = ''http://x/v2.xml'' \<and>
   timestamp (versions doc_tie ! 0) = timestamp (versions doc_tie ! 1) \<and>
   timestamp (versions doc_tie ! 1) \<le> ''2020-05-02T00:00:00Z'' \<and>
   length (versions doc_tie) = 2 \<and>
   at_time uris_unordered ''2020-05-02T00:00:00.000000Z'' = [] \<and>
   fst (uris_unordered ! 1) \<le> ''2020-05-02T00:00:00.000000Z'' \<and>
   snd (uris_unordered ! 1) = ''http://x/early.png''"
  by (simp add: at_time_def uris_tie_def uris_unordered_def Document_version_at_def
      doc_tie_def pattern_defs)

text \<open>
  Where entries share a timestamp the two readers of a timeline disagree: \<open>version\<close>
  takes the last entry of the timeline, \<open>version_at\<close> keeps the first of the tied
  entries, at whatever later time it is asked.
\<close>

lemma version_and_version_at_differ_on_tie:
  "Document_version doc_tie 0
     = Inr \<lparr>data = ''http://x/v1.xml'', assets = [''fig1'' \<mapsto> ''http://x/b.png''],
            timestamp = ''2020-05-01T10:00:00.000000Z''\<rparr> \<and>
   Document_version_at doc_tie ''2021-01-01''
     = Inr \<lparr>data = ''http://x/v1.xml'', assets = [''fig1'' \<mapsto> ''http://x/a.png''],
            timestamp = ''2020-05-01T10:00:00.000000Z''\<rparr>"
  by (simp add: Document_version_def py_getitem_def Document_version_at_def pattern_defs
      doc_tie_def uris_tie_def at_time_def latest_def fun_eq_iff)

text \<open>
  C2, amended. Timestamps are strings, compared as Python compares strings. On a
  timeline whose timestamps strictly increase along the sequence in that order,
  resolution by time returns the last entry whose timestamp is at most the query:
  \<open>_at_time\<close> gives that entry's URI, or the empty string when no entry qualifies;
  \<open>version_at\<close>, for a well-formed timestamp (a bare date widened to the end of the
  day), gives that version with every asset resolved by \<open>_at_time\<close> on its own
  timeline, or raises ValueError when no version qualifies. Nothing is said of
  timelines in which two entries share a timestamp.
\<close>

theorem resolve_by_time_last_qualifying:
  "(sorted_wrt (<) (map fst uris) \<longrightarrow>
      at_time uris T =
        (case filter (\<lambda>e. fst e \<le> T) uris of [] \<Rightarrow> [] | q # qs \<Rightarrow> snd (last (q # qs)))) \<and>
   (sorted_wrt (<) (map timestamp (versions d)) \<and> matches_timestamp_pattern ts \<longrightarrow>
      Document_version_at d ts =
        (let T' = (if matches_date_pattern ts then ts @ ''T23:59:59.999999Z'' else ts)
         in case filter (\<lambda>v. timestamp v \<le> T') (versions d) of
              [] \<Rightarrow> Inl (ValueError ''missing version for timestamp'')
            | q # qs \<Rightarrow>
                Inr \<lparr>data = data (last (q # qs)),
                     assets = (\<lambda>a. map_option (\<lambda>uris. at_time uris T')
                                     (assets (last (q # qs)) a)),
                     timestamp = timestamp (last (q # qs))\<rparr>))"
proof (intro conjI impI)
  assume "sorted_wrt (<) (map fst uris)"
  then show "at_time uris T =
        (case filter (\<lambda>e. fst e \<le> T) uris of [] \<Rightarrow> [] | q # qs \<Rightarrow> snd (last (q # qs)))"
    by (simp add: at_time_def py_max_takeWhile_strictly_increasing split: list.splits)
next
  assume a: "sorted_wrt (<) (map timestamp (versions d)) \<and> matches_timestamp_pattern ts"
  then have s: "sorted_wrt (<) (map timestamp (versions d))"
    and m: "matches_timestamp_pattern ts"
    by simp_all
  show "Document_version_at d ts =
        (let T' = (if matches_date_pattern ts then ts @ ''T23:59:59.999999Z'' else ts)
         in case filter (\<lambda>v. timestamp v \<le> T') (versions d) of
              [] \<Rightarrow> Inl (ValueError ''missing version for timestamp'')
            | q # qs \<Rightarrow>
                Inr \<lparr>data = data (last (q # qs)),
                     assets = (\<lambda>a. map_option (\<lambda>uris. at_time uris T')
                                     (assets (last (q # qs)) a)),
                     timestamp = timestamp (last (q # qs))\<rparr>)"
    using m
    by (simp add: Document_version_at_def Let_def py_max_takeWhile_strictly_increasing [OF s]
        split: list.splits)
qed

theorem resolve_by_time_last_qualifying_witness:
  "sorted_wrt (<) (map fst uris_two) \<and>
   at_time uris_two ''2020-05-02T00:00:00.000000Z'' = ''http://x/a.png'' \<and>
   sorted_wrt (<) (map timestamp (versions doc_two)) \<and>
   matches_timestamp_pattern ''2020-05-02T00:00:00Z'' \<and>
   Document_version_at doc_two ''2020-05-02T00:00:00Z''
     = Inr \<lparr>data = ''http://x/v1.xml'', assets = [''fig1'' \<mapsto> ''http://x/a.png''],
            timestamp = ''2020-05-01T10:00:00.000000Z''\<rparr>"
proof -
  have h1: "sorted_wrt (<) (map fst uris_two)" by (simp add: uris_two_def)
  have h2: "sorted_wrt (<) (map timestamp (versions doc_two))" by (simp add: doc_two_def)
  have h3: "matches_timestamp_pattern ''2020-05-02T00:00:00Z''" by (simp add: pattern_defs)
  have h4: "\<not> matches_date_pattern ''2020-05-02T00:00:00Z''" by (simp add: pattern_defs)
  have f3: "at_time uris_two ''2020-05-02T00:00:00Z'' = ''http://x/a.png''"
    by (simp add: at_time_def uris_two_def)
  from resolve_by_time_last_qualifying
         [of uris_two "''2020-05-02T00:00:00.000000Z''" doc_two "''2020-05-02T00:00:00Z''"]
  show ?thesis using h1 h2 h3 h4 f3 by (simp add: fun_eq_iff uris_two_def doc_two_def)
qed

subsection \<open>Dicts, and the loop of \<open>add_version\<close>\<close>

lemma map_of_dict_set: "map_of (dict_set ps k v) = (map_of ps)(k \<mapsto> v)"
  by (induction ps) (auto simp: fun_eq_iff)

lemma keys_dict_set: "fst ` set (dict_set ps k v) = insert k (fst ` set ps)"
  by (induction ps) auto

lemma distinct_dict_set: "distinct (map fst ps) \<Longrightarrow> distinct (map fst (dict_set ps k v))"
proof (induction ps)
  case Nil
  show ?case by simp
next
  case (Cons p ps)
  then show ?case using keys_dict_set [of ps k v] by (auto simp: image_iff)
qed

lemma map_of_comprehension:
  "map_of (fold (\<lambda>k acc. dict_set acc k (f k)) ks acc)
     = (\<lambda>k. if k \<in> set ks then Some (f k) else map_of acc k)"
  by (induction ks arbitrary: acc) (auto simp: map_of_dict_set fun_eq_iff)

lemma distinct_comprehension:
  "distinct (map fst acc) \<Longrightarrow> distinct (map fst (fold (\<lambda>k acc. dict_set acc k (f k)) ks acc))"
  by (induction ks arbitrary: acc) (simp_all add: distinct_dict_set)

lemma keys_comprehension:
  "fst ` set (fold (\<lambda>k acc. dict_set acc k (f k)) ks acc) = set ks \<union> fst ` set acc"
  by (induction ks arbitrary: acc) (simp_all add: keys_dict_set)

lemma map_of_map_const:
  "map_of (map (\<lambda>k. (k, c)) ks) a = (if a \<in> set ks then Some c else None)"
  by (induction ks) auto

lemma map_of_map_const_comp:
  "map_of (map ((\<lambda>k. (k, c)) \<circ> f) xs) a = (if a \<in> f ` set xs then Some c else None)"
  by (induction xs) auto

lemma new_asset_version_known:
  "assets v a = Some uris \<Longrightarrow>
     DocumentManifest_new_asset_version v a u c
       = (Inr (v\<lparr>assets := (assets v)(a \<mapsto> uris @ [(c 0, u)])\<rparr>), \<lambda>n. c (Suc n))"
  by (simp add: DocumentManifest_new_asset_version_def now_def)

lemma latest_snoc: "latest (uris @ [(t, u)]) = u"
  by (cases uris) (simp_all add: latest_def)

lemma extends_refl: "extends v v"
  by (simp add: extends_def)

lemma extends_trans: "extends v v1 \<Longrightarrow> extends v1 v2 \<Longrightarrow> extends v v2"
  unfolding extends_def by (metis append.assoc)

lemma extends_append:
  "assets v a = Some uris \<Longrightarrow> extends v (v\<lparr>assets := (assets v)(a \<mapsto> uris @ [e])\<rparr>)"
  by (auto simp: extends_def)

lemma add_version_loop_total:
  "fst ` set items \<subseteq> dom (assets v) \<Longrightarrow>
     \<exists>v' c'. add_version_loop items v c = (Inr v', c') \<and> extends v v'"
proof (induction items arbitrary: v c)
  case Nil
  show ?case by (simp add: extends_refl)
next
  case (Cons p items)
  obtain a u where p: "p = (a, u)" by (cases p)
  show ?case
  proof (cases "u = []")
    case True
    from Cons.prems have "fst ` set items \<subseteq> dom (assets v)" by simp
    from Cons.IH [OF this, of c] True p show ?thesis by simp
  next
    case False
    from Cons.prems p obtain uris where au: "assets v a = Some uris" by auto
    let ?v1 = "v\<lparr>assets := (assets v)(a \<mapsto> uris @ [(c 0, u)])\<rparr>"
    have e1: "extends v ?v1" using au by (rule extends_append)
    from Cons.prems have "fst ` set items \<subseteq> dom (assets ?v1)" by auto
    from Cons.IH [OF this, of "\<lambda>n. c (Suc n)"]
    obtain v' c' where r: "add_version_loop items ?v1 (\<lambda>n. c (Suc n)) = (Inr v', c')"
      and e2: "extends ?v1 v'" by blast
    from e1 e2 have "extends v v'" by (rule extends_trans)
    with r False p au show ?thesis by (simp add: new_asset_version_known)
  qed
qed

lemma add_version_loop_latest:
  "distinct (map fst items) \<Longrightarrow> add_version_loop items v c = (Inr v', c') \<Longrightarrow>
     map_option latest (assets v' a)
       = (case map_of items a of
            None \<Rightarrow> map_option latest (assets v a)
          | Some u \<Rightarrow> if u = [] then map_option latest (assets v a) else Some u)"
proof (induction items arbitrary: v c)
  case Nil
  then show ?case by simp
next
  case (Cons p items)
  obtain k u where p: "p = (k, u)" by (cases p)
  from Cons.prems p have d: "distinct (map fst items)" and nk: "k \<notin> fst ` set items" by auto
  from nk have mk: "map_of items k = None" by (simp add: map_of_eq_None_iff)
  show ?case
  proof (cases "u = []")
    case True
    with Cons.prems p have "add_version_loop items v c = (Inr v', c')" by simp
    from Cons.IH [OF d this] True p mk show ?thesis by simp
  next
    case False
    show ?thesis
    proof (cases "assets v k")
      case None
      with Cons.prems p False show ?thesis
        by (simp add: DocumentManifest_new_asset_version_def)
    next
      case (Some uris)
      let ?v1 = "v\<lparr>assets := (assets v)(k \<mapsto> uris @ [(c 0, u)])\<rparr>"
      from Cons.prems p False Some
      have "add_version_loop items ?v1 (\<lambda>n. c (Suc n)) = (Inr v', c')"
        by (simp add: new_asset_version_known)
      from Cons.IH [OF d this] False p mk show ?thesis
        by (cases "a = k") (simp_all add: latest_snoc split: option.splits)
    qed
  qed
qed


lemma add_version_succeeds:
  "\<exists>v c'. DocumentManifest_add_version m data_uri as c
             = (Inr (m\<lparr>versions := versions m @ [v]\<rparr>), c') \<and>
           data v = data_uri \<and> timestamp v = c 0 \<and> dom (assets v) = set (asset_keys as) \<and>
           (\<forall>items. as = AssetUris items \<longrightarrow>
              add_version_loop items
                \<lparr>data = data_uri, assets = map_of (map (\<lambda>aid. (aid, [])) (map fst items)),
                 timestamp = c 0\<rparr> (\<lambda>n. c (Suc n)) = (Inr v, c'))"
proof (cases as)
  case (AssetIds ids)
  let ?v0 = "\<lparr>data = data_uri, assets = map_of (map (\<lambda>aid. (aid, [])) ids),
              timestamp = c 0\<rparr>"
  have "dom (assets ?v0) = set ids"
    by (auto simp: dom_def map_of_map_const)
  with AssetIds show ?thesis
    by (intro exI [of _ ?v0] exI [of _ "\<lambda>n. c (Suc n)"])
       (simp add: DocumentManifest_add_version_def DocumentManifest_new_version_def now_def)
next
  case (AssetUris items)
  let ?v0 = "\<lparr>data = data_uri, assets = map_of (map (\<lambda>aid. (aid, [])) (map fst items)),
              timestamp = c 0\<rparr>"
  have dom0: "dom (assets ?v0) = fst ` set items"
    by (auto simp: dom_def map_of_map_const_comp)
  then have "fst ` set items \<subseteq> dom (assets ?v0)" by (rule equalityD2)
  from add_version_loop_total [OF this, of "\<lambda>n. c (Suc n)"]
  obtain v' c' where r: "add_version_loop items ?v0 (\<lambda>n. c (Suc n)) = (Inr v', c')"
    and e: "extends ?v0 v'" by blast
  from e dom0 have "data v' = data_uri" "timestamp v' = c 0" "dom (assets v') = fst ` set items"
    by (simp_all add: extends_def)
  with r AssetUris show ?thesis
    by (simp add: DocumentManifest_add_version_def DocumentManifest_new_version_def now_def)
qed

text \<open>
  C6. When the latest version of a Document resolves asset \<open>a\<close> to \<open>u1\<close>, and
  \<open>new_version\<close> is called with another data URL whose content, as the assets getter
  reports it, contains asset \<open>a\<close> again, the call succeeds, the Document has one more
  version, and \<open>version()\<close> of the new latest version has the new data URL and resolves
  \<open>a\<close> to \<open>u1\<close>.
\<close>

theorem new_version_carries_asset_forward:
  assumes lv: "Document_version d (- 1) = Inr lv"
    and bound: "assets lv a = Some u1"
    and new_url: "data lv \<noteq> data_url"
    and fetched: "assets_getter data_url timeout = Inr keys"
    and found: "a \<in> set keys"
  shows "\<exists>d' c' lv'.
           Document_new_version d data_url assets_getter timeout c = (None, d', c') \<and>
           length (versions d') = Suc (length (versions d)) \<and>
           Document_version d' (- 1) = Inr lv' \<and>
           data lv' = data_url \<and> assets lv' a = Some u1"
proof -
  let ?items = "Document_link_assets d keys"
  have items: "?items = fold (\<lambda>k acc. dict_set acc k
                   (case assets lv k of None \<Rightarrow> [] | Some u \<Rightarrow> u)) keys []"
    using lv by (simp add: Document_link_assets_def)
  have dist: "distinct (map fst ?items)"
    unfolding items by (rule distinct_comprehension) simp
  have linked: "map_of ?items a = Some u1"
    unfolding items using bound found by (simp add: map_of_comprehension)
  then have a_key: "a \<in> fst ` set ?items"
    by (metis domI dom_map_of_conv_image_fst)
  from add_version_succeeds [of d data_url "AssetUris ?items" c]
  obtain v c' where add: "DocumentManifest_add_version d data_url (AssetUris ?items) c
                            = (Inr (d\<lparr>versions := versions d @ [v]\<rparr>), c')"
    and dv: "data v = data_url"
    and loop: "add_version_loop ?items
                 \<lparr>data = data_url, assets = map_of (map (\<lambda>aid. (aid, [])) (map fst ?items)),
                  timestamp = c 0\<rparr> (\<lambda>n. c (Suc n)) = (Inr v, c')"
    by blast
  have "map_option latest (assets v a) = Some u1"
    using add_version_loop_latest [OF dist loop, of a] linked a_key
    by (cases "u1 = []") (simp_all add: latest_def map_of_map_const_comp)
  then have res: "Document_version (d\<lparr>versions := versions d @ [v]\<rparr>) (- 1)
                    = Inr \<lparr>data = data_url, assets = (\<lambda>a. map_option latest (assets v a)),
                           timestamp = timestamp v\<rparr>"
    using dv by (simp add: Document_version_latest)
  have "Document_new_version d data_url assets_getter timeout c
          = (None, d\<lparr>versions := versions d @ [v]\<rparr>, c')"
    using lv new_url fetched add by (simp add: Document_new_version_def)
  with res \<open>map_option latest (assets v a) = Some u1\<close> show ?thesis by simp
qed


theorem new_version_carries_asset_forward_witness:
  "Document_version doc_fig (- 1)
     = Inr \<lparr>data = ''http://x/v1.xml'', assets = [''fig1'' \<mapsto> ''http://x/fig1.png''],
            timestamp = ''2020-05-01T10:00:00.000000Z''\<rparr> \<and>
   getter_fig ''http://x/v2.xml'' 2 = Inr [''fig1''] \<and>
   (\<exists>d' c' lv'.
      Document_new_version doc_fig ''http://x/v2.xml'' getter_fig 2 clock_2021 = (None, d', c') \<and>
      length (versions d') = Suc (length (versions doc_fig)) \<and>
      Document_version d' (- 1) = Inr lv' \<and>
      data lv' = ''http://x/v2.xml'' \<and> assets lv' ''fig1'' = Some ''http://x/fig1.png'')"
proof -
  let ?lv = "\<lparr>data = ''http://x/v1.xml'', assets = [''fig1'' \<mapsto> ''http://x/fig1.png''],
              timestamp = ''2020-05-01T10:00:00.000000Z''\<rparr>"
  have h1: "Document_version doc_fig (- 1) = Inr ?lv"
    by (simp add: Document_version_latest doc_fig_def latest_def fun_eq_iff)
  have h2: "assets ?lv ''fig1'' = Some ''http://x/fig1.png''" by simp
  have h3: "data ?lv \<noteq> ''http://x/v2.xml''" by simp
  have h4: "getter_fig ''http://x/v2.xml'' 2 = Inr [''fig1'']" by (simp add: getter_fig_def)
  have h5: "''fig1'' \<in> set [''fig1'']" by simp
  from new_version_carries_asset_forward
         [where assets_getter = getter_fig and timeout = 2 and keys = "[''fig1'']"
            and c = clock_2021, OF h1 h2 h3 h4 h5] h1 h4
  show ?thesis by simp
qed

subsection \<open>Append-only\<close>

lemma append_only_snoc: "append_only m (m\<lparr>versions := versions m @ [v]\<rparr>)"
  by (simp add: append_only_def nth_append extends_refl)

text \<open>
  C7. The two operations that produce a manifest only append. \<open>add_version\<close> always
  succeeds, and its result is the given manifest with one version added at the end.
  When \<open>add_asset_version\<close> succeeds, its result has the same number of versions, all
  but the last are the given ones, and the last is the given last version with one
  entry added at the end of the timeline of the asset. In both cases every version and
  every timeline entry of the given manifest is in the result, unmodified and at the
  same position.
\<close>

theorem manifest_operations_append_only:
  "(\<exists>v c1. DocumentManifest_add_version m data_uri as c
             = (Inr (m\<lparr>versions := versions m @ [v]\<rparr>), c1) \<and>
           append_only m (m\<lparr>versions := versions m @ [v]\<rparr>)) \<and>
   (DocumentManifest_add_asset_version m asset_id asset_uri c = (Inr m', c') \<longrightarrow>
      append_only m m' \<and>
      length (versions m') = length (versions m) \<and>
      butlast (versions m') = butlast (versions m) \<and>
      (\<exists>uris. assets (last (versions m)) asset_id = Some uris \<and>
              last (versions m')
                = (last (versions m))\<lparr>assets :=
                     (assets (last (versions m)))(asset_id \<mapsto> uris @ [(c 0, asset_uri)])\<rparr>))"
proof (intro conjI impI)
  from add_version_succeeds [of m data_uri as c]
  show "\<exists>v c1. DocumentManifest_add_version m data_uri as c
                  = (Inr (m\<lparr>versions := versions m @ [v]\<rparr>), c1) \<and>
                append_only m (m\<lparr>versions := versions m @ [v]\<rparr>)"
    using append_only_snoc by blast
next
  assume ok: "DocumentManifest_add_asset_version m asset_id asset_uri c = (Inr m', c')"
  have ne: "versions m \<noteq> []"
    using ok by (auto simp: DocumentManifest_add_asset_version_def py_getitem_last)
  let ?v = "last (versions m)"
  obtain uris where au: "assets ?v asset_id = Some uris"
    using ok ne
    by (cases "assets ?v asset_id")
       (auto simp: DocumentManifest_add_asset_version_def py_getitem_last
          DocumentManifest_new_asset_version_def)
  let ?v1 = "?v\<lparr>assets := (assets ?v)(asset_id \<mapsto> uris @ [(c 0, asset_uri)])\<rparr>"
  have m': "m' = m\<lparr>versions := (versions m)[length (versions m) - 1 := ?v1]\<rparr>"
    using ok ne au
    by (simp add: DocumentManifest_add_asset_version_def py_getitem_last
        new_asset_version_known)
  have ext: "extends ?v ?v1" using au by (rule extends_append)
  have "\<forall>i<length (versions m). extends (versions m ! i) (versions m' ! i)"
  proof (intro allI impI)
    fix i assume i: "i < length (versions m)"
    show "extends (versions m ! i) (versions m' ! i)"
    proof (cases "i = length (versions m) - 1")
      case True
      with i ne ext show ?thesis by (simp add: m' last_conv_nth)
    next
      case False
      with i show ?thesis by (simp add: m' extends_refl)
    qed
  qed
  then show "append_only m m'" by (simp add: append_only_def m')
  show "length (versions m') = length (versions m)" by (simp add: m')
  show "butlast (versions m') = butlast (versions m)" by (simp add: m' butlast_list_update)
  show "\<exists>uris. assets ?v asset_id = Some uris \<and>
          last (versions m') = ?v\<lparr>assets := (assets ?v)(asset_id \<mapsto> uris @ [(c 0, asset_uri)])\<rparr>"
    using au ne by (simp add: m' last_list_update)
qed


theorem manifest_operations_append_only_witness:
  "DocumentManifest_add_asset_version doc_fig ''fig1'' ''http://x/fig1b.png'' clock_2021
     = (Inr doc_fig_b, \<lambda>n. clock_2021 (Suc n)) \<and>
   append_only doc_fig doc_fig_b \<and>
   length (versions doc_fig_b) = length (versions doc_fig) \<and>
   butlast (versions doc_fig_b) = butlast (versions doc_fig) \<and>
   (\<exists>v c1. DocumentManifest_add_version doc_fig ''http://x/v2.xml'' (AssetIds [''fig1'']) clock_2021
              = (Inr (doc_fig\<lparr>versions := versions doc_fig @ [v]\<rparr>), c1) \<and>
            append_only doc_fig (doc_fig\<lparr>versions := versions doc_fig @ [v]\<rparr>))"
proof -
  have h: "DocumentManifest_add_asset_version doc_fig ''fig1'' ''http://x/fig1b.png'' clock_2021
             = (Inr doc_fig_b, \<lambda>n. clock_2021 (Suc n))"
    by (simp add: DocumentManifest_add_asset_version_def py_getitem_last doc_fig_def
        doc_fig_b_def DocumentManifest_new_asset_version_def now_def clock_2021_def)
  from manifest_operations_append_only
         [of doc_fig "''http://x/v2.xml''" "AssetIds [''fig1'']" clock_2021
             "''fig1''" "''http://x/fig1b.png''" doc_fig_b "\<lambda>n. clock_2021 (Suc n)"] h
  show ?thesis by simp
qed

subsection \<open>Bundles and journals\<close>

text \<open>
  Five of the six mutating operations of BundleManifest read the clock and store the
  reading under \<open>updated\<close>.
\<close>

lemma mutators_refresh_updated:
  "BundleManifest_set_metadata b name val c = (Inr b', c') \<Longrightarrow> b' ''updated'' = Some (Text (c 0))"
  "BundleManifest_add_item b item c = (Inr b', c') \<Longrightarrow> b' ''updated'' = Some (Text (c 0))"
  "BundleManifest_insert_item b index item c = (Inr b', c') \<Longrightarrow> b' ''updated'' = Some (Text (c 0))"
  "BundleManifest_remove_item b item c = (Inr b', c') \<Longrightarrow> b' ''updated'' = Some (Text (c 0))"
  "BundleManifest_set_component b name held c = (Inr b', c') \<Longrightarrow> b' ''updated'' = Some (Text (c 0))"
  by (auto simp: BundleManifest_set_metadata_def BundleManifest_add_item_def
      BundleManifest_insert_item_def BundleManifest_remove_item_def
      BundleManifest_set_component_def now_def
      split: option.splits bval.splits if_splits sum.splits)

text \<open>
  C4. Every mutating operation of BundleManifest is to set \<open>updated\<close> to the current
  timestamp. \<open>remove_component\<close> does not: it takes no clock, and removing the component
  \<open>aop\<close> from \<open>journal_1\<close> gives a manifest whose \<open>updated\<close> is still the timestamp
  the manifest was created with.
\<close>

theorem remove_component_keeps_updated:
  "BundleManifest_remove_component journal_1 ''aop'' = Inr (journal_1(''aop'' := None)) \<and>
   (journal_1(''aop'' := None)) ''updated'' = Some (Text ''2019-01-01T00:00:00.000000Z'') \<and>
   journal_1 ''updated'' = Some (Text ''2019-01-01T00:00:00.000000Z'')"
  by (simp add: BundleManifest_remove_component_def journal_1_def)

text \<open>
  C3 as stated fails: the eighth value of the vocabulary is spelled with a comma in
  \<open>SUBJECT_AREAS\<close>. Assigning \<open>LINGUISTIC LITERATURE AND ARTS\<close> raises ValueError, and
  assigning \<open>LINGUISTIC, LITERATURE AND ARTS\<close> succeeds.
\<close>

theorem set_subject_areas_counterexample:
  "Journal_set_subject_areas journal_1 [''LINGUISTIC LITERATURE AND ARTS''] clock_2021
     = (Some (ValueError ''cannot set subject_areas''), journal_1, clock_2021) \<and>
   fst (Journal_set_subject_areas journal_1 [''LINGUISTIC, LITERATURE AND ARTS''] clock_2021) = None"
  by (simp add: Journal_set_subject_areas_def SUBJECT_AREAS_def assign_manifest_def
      BundleManifest_set_metadata_def now_def journal_1_def)

text \<open>
  C3, amended. On a Journal whose manifest holds a metadata dict, assigning
  \<open>subject_areas\<close> a tuple of strings succeeds exactly when every element is one of
  AGRICULTURAL SCIENCES, APPLIED SOCIAL SCIENCES, BIOLOGICAL SCIENCES, ENGINEERING, EXACT
  AND EARTH SCIENCES, HEALTH SCIENCES, HUMAN SCIENCES and LINGUISTIC, LITERATURE AND ARTS
  (compared exactly); it then appends the tuple, stamped with the current time, to the
  history of \<open>subject_areas\<close> and refreshes \<open>updated\<close>. Otherwise the setter raises
  ValueError and the manifest is left as it was.
\<close>

theorem set_subject_areas_vocabulary:
  assumes "self ''metadata'' = Some (Metadata md)"
  shows "Journal_set_subject_areas self val c =
     (if set val \<subseteq> {''AGRICULTURAL SCIENCES'', ''APPLIED SOCIAL SCIENCES'',
                       ''BIOLOGICAL SCIENCES'', ''ENGINEERING'', ''EXACT AND EARTH SCIENCES'',
                       ''HEALTH SCIENCES'', ''HUMAN SCIENCES'',
                       ''LINGUISTIC, LITERATURE AND ARTS''}
      then (None,
            self(''metadata'' \<mapsto>
                   Metadata (md(''subject_areas'' \<mapsto>
                     (case md ''subject_areas'' of None \<Rightarrow> [] | Some es \<Rightarrow> es)
                       @ [(c 0, MTuple val)])),
                 ''updated'' \<mapsto> Text (c 0)),
            \<lambda>n. c (Suc n))
      else (Some (ValueError ''cannot set subject_areas''), self, c))"
proof -
  have "(filter (\<lambda>item. item \<notin> set SUBJECT_AREAS) val = []) = (set val \<subseteq> set SUBJECT_AREAS)"
    by (auto simp: filter_empty_conv)
  moreover have "set SUBJECT_AREAS = {''AGRICULTURAL SCIENCES'', ''APPLIED SOCIAL SCIENCES'',
                       ''BIOLOGICAL SCIENCES'', ''ENGINEERING'', ''EXACT AND EARTH SCIENCES'',
                       ''HEALTH SCIENCES'', ''HUMAN SCIENCES'',
                       ''LINGUISTIC, LITERATURE AND ARTS''}"
    by (simp add: SUBJECT_AREAS_def)
  ultimately show ?thesis
    using assms
    by (simp add: Journal_set_subject_areas_def assign_manifest_def
        BundleManifest_set_metadata_def now_def Let_def del: set_simps)
qed


theorem set_subject_areas_vocabulary_witness:
  "journal_1 ''metadata'' = Some (Metadata Map.empty) \<and>
   Journal_set_subject_areas journal_1 [''ENGINEERING'', ''HEALTH SCIENCES''] clock_2021
     = (None,
        journal_1(''metadata'' \<mapsto>
                    Metadata [''subject_areas'' \<mapsto>
                      [(''2021-01-01T00:00:00.000000Z'',
                        MTuple [''ENGINEERING'', ''HEALTH SCIENCES''])]],
                  ''updated'' \<mapsto> Text ''2021-01-01T00:00:00.000000Z''),
        \<lambda>n. clock_2021 (Suc n)) \<and>
   Journal_set_subject_areas journal_1 [''ENGINEERING'', ''engineering''] clock_2021
     = (Some (ValueError ''cannot set subject_areas''), journal_1, clock_2021)"
proof -
  have h: "journal_1 ''metadata'' = Some (Metadata Map.empty)"
    by (simp add: journal_1_def)
  from set_subject_areas_vocabulary
         [where self = journal_1 and md = Map.empty
            and val = "[''ENGINEERING'', ''HEALTH SCIENCES'']" and c = clock_2021, OF h]
       set_subject_areas_vocabulary
         [where self = journal_1 and md = Map.empty
            and val = "[''ENGINEERING'', ''engineering'']" and c = clock_2021, OF h]
  show ?thesis using h by (simp add: clock_2021_def)
qed

lemma py_list_insert_in_range:
  "- (2 ^ 63) \<le> index \<Longrightarrow> index < 2 ^ 63 \<Longrightarrow>
     py_list_insert xs index x
       = Inr (take (nat (max 0 (min (int (length xs))
                                   (if index < 0 then index + int (length xs) else index)))) xs
              @ x # drop (nat (max 0 (min (int (length xs))
                                   (if index < 0 then index + int (length xs) else index)))) xs)"
  by (auto simp: py_list_insert_def Let_def max_def min_def)

text \<open>
  C10 as stated fails: \<open>insert_item\<close> with an item not yet present is to succeed for
  every integer index. An index that does not fit a machine integer makes
  \<open>list.insert\<close> raise OverflowError, and with it \<open>insert_item\<close>, \<open>insert_issue\<close> and
  \<open>insert_document\<close>; here the index is \<open>2 ^ 63\<close>.
\<close>

theorem insert_item_counterexample:
  "''issue-3'' \<notin> set [''issue-1'', ''issue-2''] \<and>
   journal_1 ''items'' = Some (Items [''issue-1'', ''issue-2'']) \<and>
   BundleManifest_insert_item journal_1 9223372036854775808 ''issue-3'' clock_2021
     = (Inl OverflowError, clock_2021) \<and>
   Journal_insert_issue journal_1 9223372036854775808 ''issue-3'' clock_2021
     = (Some OverflowError, journal_1, clock_2021) \<and>
   DocumentsBundle_insert_document journal_1 9223372036854775808 ''issue-3'' clock_2021
     = (Some OverflowError, journal_1, clock_2021)"
  by (simp add: BundleManifest_insert_item_def Journal_insert_issue_def
      DocumentsBundle_insert_document_def assign_manifest_def py_list_insert_def journal_1_def)

text \<open>
  C10, amended. For every bundle whose manifest holds a list of items, every item not
  in that list and every index that fits a machine integer (from \<open>- 2 ^ 63\<close> up to
  \<open>2 ^ 63 - 1\<close>), \<open>insert_item\<close>, and with it \<open>DocumentsBundle.insert_document\<close> and
  \<open>Journal.insert_issue\<close>, succeeds: a negative index counts from the end, an index out
  of range is moved to the nearest end of the list (at or beyond the length: the item
  goes last; at or below minus the length: the item goes first), the item is inserted
  there, the list grows by exactly one, and \<open>updated\<close> is refreshed.
\<close>

theorem insert_item_clamps:
  assumes held: "b ''items'' = Some (Items xs)"
    and fresh: "item \<notin> set xs"
    and lo: "- (2 ^ 63) \<le> index"
    and hi: "index < 2 ^ 63"
  shows "\<exists>ys. BundleManifest_insert_item b index item c
                 = (Inr (b(''items'' \<mapsto> Items ys, ''updated'' \<mapsto> Text (c 0))), \<lambda>n. c (Suc n)) \<and>
              DocumentsBundle_insert_document b index item c
                 = (None, b(''items'' \<mapsto> Items ys, ''updated'' \<mapsto> Text (c 0)), \<lambda>n. c (Suc n)) \<and>
              Journal_insert_issue b index item c
                 = (None, b(''items'' \<mapsto> Items ys, ''updated'' \<mapsto> Text (c 0)), \<lambda>n. c (Suc n)) \<and>
              length ys = Suc (length xs) \<and>
              ys = take (nat (max 0 (min (int (length xs))
                                   (if index < 0 then index + int (length xs) else index)))) xs
                   @ item # drop (nat (max 0 (min (int (length xs))
                                   (if index < 0 then index + int (length xs) else index)))) xs \<and>
              (int (length xs) \<le> index \<longrightarrow> ys = xs @ [item]) \<and>
              (index \<le> - int (length xs) \<longrightarrow> ys = item # xs)"
proof -
  let ?k = "nat (max 0 (min (int (length xs))
                  (if index < 0 then index + int (length xs) else index)))"
  let ?ys = "take ?k xs @ item # drop ?k xs"
  have ins: "py_list_insert xs index item = Inr ?ys"
    using lo hi by (rule py_list_insert_in_range)
  have r: "BundleManifest_insert_item b index item c
             = (Inr (b(''items'' \<mapsto> Items ?ys, ''updated'' \<mapsto> Text (c 0))), \<lambda>n. c (Suc n))"
    using held fresh by (simp add: BundleManifest_insert_item_def ins now_def)
  have len: "length ?ys = Suc (length xs)" by simp
  have to_end: "int (length xs) \<le> index \<longrightarrow> ?ys = xs @ [item]"
    by (auto simp: max_def min_def)
  have to_front: "index \<le> - int (length xs) \<longrightarrow> ?ys = item # xs"
  proof
    assume a: "index \<le> - int (length xs)"
    show "?ys = item # xs"
    proof (cases "xs = []")
      case True
      then show ?thesis by simp
    next
      case False
      then have "0 < int (length xs)" by simp
      with a have "index < 0" and "index + int (length xs) \<le> 0" by linarith+
      then have "?k = 0" by (simp add: max_def min_def)
      then show ?thesis by simp
    qed
  qed
  show ?thesis
    using r len to_end to_front
    by (intro exI [of _ ?ys])
       (simp only: DocumentsBundle_insert_document_def Journal_insert_issue_def
          assign_manifest_def prod.case sum.case simp_thms)
qed

theorem insert_item_clamps_witness:
  "journal_1 ''items'' = Some (Items [''issue-1'', ''issue-2'']) \<and>
   ''issue-3'' \<notin> set [''issue-1'', ''issue-2''] \<and>
   - (2 ^ 63) \<le> (7::int) \<and> (7::int) < 2 ^ 63 \<and>
   BundleManifest_insert_item journal_1 7 ''issue-3'' clock_2021
     = (Inr (journal_1(''items'' \<mapsto> Items [''issue-1'', ''issue-2'', ''issue-3''],
                       ''updated'' \<mapsto> Text ''2021-01-01T00:00:00.000000Z'')),
        \<lambda>n. clock_2021 (Suc n))"
proof -
  have h1: "journal_1 ''items'' = Some (Items [''issue-1'', ''issue-2''])"
    by (simp add: journal_1_def)
  have h2: "''issue-3'' \<notin> set [''issue-1'', ''issue-2'']" by simp
  have h3: "- (2 ^ 63) \<le> (7::int)" by simp
  have h4: "(7::int) < 2 ^ 63" by simp
  from insert_item_clamps
         [where b = journal_1 and xs = "[''issue-1'', ''issue-2'']" and item = "''issue-3''"
            and index = 7 and c = clock_2021, OF h1 h2 h3 h4]
  show ?thesis using h1 by (auto simp: clock_2021_def)
qed

end
